theory Spec2Isabelle
  imports Main
begin

section \<open>Data model of backend/server.py\<close>

text \<open>
  An \<open>instant\<close> is a point in time counted in microseconds since the epoch (the
  resolution of Python's \<open>datetime\<close>); \<open>timedelta_minutes m\<close> is \<open>timedelta(minutes=m)\<close>.
  Each request handler reads the clock several times; \<open>now k\<close> is the instant of the k-th
  call of \<open>datetime.now(timezone.utc)\<close> made while the request is served.
  \<open>uuid\<close> is the string produced by \<open>str(uuid.uuid4())\<close> in the request and
  \<open>rnd k\<close> the k-th draw of the random generator.
\<close>

type_synonym instant = int

definition timedelta_minutes :: "int \<Rightarrow> int" where
  "timedelta_minutes m = m * 60000000"

definition ACCESS_TOKEN_EXPIRE_MINUTES :: int where
  "ACCESS_TOKEN_EXPIRE_MINUTES = 1440"

text \<open>The constants of class \<open>UserRole\<close>.\<close>

definition SUPERADMIN :: string where "SUPERADMIN = ''superadmin''"
definition SUBADMIN :: string where "SUBADMIN = ''subadmin''"
definition CLASS_TEACHER :: string where "CLASS_TEACHER = ''class_teacher''"
definition SUB_TEACHER :: string where "SUB_TEACHER = ''sub_teacher''"
definition STUDENT :: string where "STUDENT = ''student''"

text \<open>
  What a handler can raise: an \<open>HTTPException\<close> with its status code and detail, or an
  exception of Python that no handler catches (the framework then answers 500).
  A handler is a function from the store to \<open>Inl\<close> of what it raises or \<open>Inr\<close> of the new
  store and the response. In every handler each \<open>raise\<close> comes before the first write,
  so a request that raises leaves the store as it was.
\<close>

datatype error =
    HTTPException nat string
  | KeyError string
  | TypeError
  | ValueError

text \<open>
  A \<open>datetime\<close> of Python is aware (it carries a time zone; the instant is kept in UTC) or
  naive (it carries none). \<open>datetime.now(timezone.utc)\<close> is \<open>Aware (now k)\<close>, and adding a
  \<open>timedelta\<close> keeps the time zone. Ordering an aware against a naive \<open>datetime\<close> raises
  \<open>TypeError\<close> (``can't compare offset-naive and offset-aware datetimes'').
\<close>

datatype datetime = Aware instant | Naive instant

fun micros :: "datetime \<Rightarrow> instant" where
  "micros (Aware t) = t"
| "micros (Naive t) = t"

definition datetime_gt :: "datetime \<Rightarrow> datetime \<Rightarrow> error + bool" where
  "datetime_gt a b =
     (case (a, b) of
        (Aware s, Aware t) \<Rightarrow> Inr (s > t)
      | (Naive s, Naive t) \<Rightarrow> Inr (s > t)
      | _ \<Rightarrow> Inl TypeError)"

text \<open>The pydantic models. A field is prefixed with a tag of its model.\<close>

record User =
  u_id :: string
  u_email :: string
  u_username :: string
  u_role :: string
  u_department_id :: "string option"
  u_class_id :: "string option"
  u_roll_no :: "string option"
  u_working_time :: "string option"
  u_created_at :: datetime
  u_is_active :: bool

record UserCreate =
  uc_email :: string
  uc_username :: string
  uc_password :: string
  uc_role :: string
  uc_department_id :: "string option"
  uc_class_id :: "string option"
  uc_roll_no :: "string option"
  uc_working_time :: "string option"

record UserLogin =
  ul_email :: string
  ul_password :: string

record StudentLogin =
  sl_roll_no :: string
  sl_email :: string

record Department =
  d_id :: string
  d_name :: string
  d_created_at :: datetime
  d_created_by :: string

record Class =
  c_id :: string
  c_name :: string
  c_department_id :: string
  c_created_at :: datetime
  c_created_by :: string

record Schedule =
  s_id :: string
  s_class_id :: string
  s_teacher_id :: string
  s_subject :: string
  s_start_time :: string
  s_end_time :: string
  s_day_of_week :: string
  s_created_at :: datetime

record QRSession =
  qs_id :: string
  qs_class_id :: string
  qs_teacher_id :: string
  qs_subject :: string
  qs_qr_code :: string
  qs_expires_at :: datetime
  qs_created_at :: datetime

record OTPRequest =
  otp_student_id :: string
  otp_qr_session_id :: string
  otp_otp :: string
  otp_expires_at :: datetime
  otp_verified :: bool
  otp_created_at :: datetime

record Attendance =
  att_id :: string
  att_student_id :: string
  att_class_id :: string
  att_teacher_id :: string
  att_subject :: string
  att_date :: datetime
  att_status :: string
  att_qr_session_id :: string
  att_created_at :: datetime

record Token =
  access_token :: string
  token_type :: string
  token_user :: User

record QRCodeResponse =
  qr_code_base64 :: string
  session_id :: string
  expires_at :: datetime

record OTPVerification =
  ov_qr_session_id :: string
  ov_otp :: string

text \<open>
  A document of the collection \<open>db.users\<close>: the fields of \<open>User\<close>, written by
  \<open>user_obj.dict()\<close>, and the key \<open>hashed_password\<close>, which \<open>register_user\<close> adds and
  \<open>add_student\<close> does not (\<open>None\<close>: the key is absent from the document).
\<close>

record user_doc =
  doc_user :: User
  doc_hashed_password :: "string option"

text \<open>
  The database: each collection is the list of its documents in insertion order. No
  handler deletes a document, so the position of a document in its collection stands
  for the \<open>_id\<close> the store gave it.
\<close>

record database =
  users :: "user_doc list"
  departments :: "Department list"
  classes :: "Class list"
  schedules :: "Schedule list"
  qr_sessions :: "QRSession list"
  otp_requests :: "OTPRequest list"
  attendance :: "Attendance list"

section \<open>Store operations\<close>

text \<open>
  Line 35 creates the client as \<open>AsyncIOMotorClient(mongo_url)\<close>, without \<open>tz_aware\<close>. The
  store keeps a date as the milliseconds since the epoch, and this client decodes it into
  a naive \<open>datetime\<close>: \<open>from_store d\<close> is what a handler reads back for a date it wrote as
  \<open>d\<close>. The collections below hold the documents as they were written; \<open>read_User\<close>,
  \<open>read_QRSession\<close>, \<open>read_OTPRequest\<close> and \<open>read_Attendance\<close> are a document as
  \<open>find_one\<close> or \<open>find\<close> returns it, and so the model that \<open>User(**user)\<close>,
  \<open>QRSession(**qr_session)\<close> and \<open>OTPRequest(**otp_request)\<close> build from it.
\<close>

definition bson_millis :: "datetime \<Rightarrow> int" where
  "bson_millis d = micros d div 1000"

definition from_store :: "datetime \<Rightarrow> datetime" where
  "from_store d = Naive (bson_millis d * 1000)"

definition read_User :: "User \<Rightarrow> User" where
  "read_User u = u\<lparr>u_created_at := from_store (u_created_at u)\<rparr>"

definition read_QRSession :: "QRSession \<Rightarrow> QRSession" where
  "read_QRSession s = s\<lparr>qs_expires_at := from_store (qs_expires_at s),
                         qs_created_at := from_store (qs_created_at s)\<rparr>"

definition read_OTPRequest :: "OTPRequest \<Rightarrow> OTPRequest" where
  "read_OTPRequest r = r\<lparr>otp_expires_at := from_store (otp_expires_at r),
                          otp_created_at := from_store (otp_created_at r)\<rparr>"

definition read_Attendance :: "Attendance \<Rightarrow> Attendance" where
  "read_Attendance a = a\<lparr>att_date := from_store (att_date a),
                          att_created_at := from_store (att_created_at a)\<rparr>"

text \<open>\<open>find_one\<close> returns the first document matching the query, or \<open>None\<close>.\<close>

fun find_one :: "('a \<Rightarrow> bool) \<Rightarrow> 'a list \<Rightarrow> 'a option" where
  "find_one q [] = None"
| "find_one q (x # xs) = (if q x then Some x else find_one q xs)"

text \<open>The same lookup, returning the document's \<open>_id\<close> (its position) with it.\<close>

fun find_one_from :: "nat \<Rightarrow> ('a \<Rightarrow> bool) \<Rightarrow> 'a list \<Rightarrow> (nat \<times> 'a) option" where
  "find_one_from n q [] = None"
| "find_one_from n q (x # xs) = (if q x then Some (n, x) else find_one_from (Suc n) q xs)"

definition find_one_with_id :: "('a \<Rightarrow> bool) \<Rightarrow> 'a list \<Rightarrow> (nat \<times> 'a) option" where
  "find_one_with_id q xs = find_one_from 0 q xs"

definition insert_one :: "'a \<Rightarrow> 'a list \<Rightarrow> 'a list" where
  "insert_one x xs = xs @ [x]"

text \<open>\<open>update_one({"_id": i}, {"$set": ...})\<close>: no document is changed when none has that id.\<close>

definition update_one :: "nat \<Rightarrow> ('a \<Rightarrow> 'a) \<Rightarrow> 'a list \<Rightarrow> 'a list" where
  "update_one i f xs = (if i < length xs then xs[i := f (xs ! i)] else xs)"

section \<open>Utility functions\<close>

text \<open>
  \<open>hashlib.sha256(...).hexdigest()\<close> is a library function: every function that hashes
  takes it as the parameter \<open>sha256\<close>.
\<close>

definition get_password_hash :: "(string \<Rightarrow> string) \<Rightarrow> string \<Rightarrow> string" where
  "get_password_hash sha256 password = sha256 password"

definition verify_password :: "(string \<Rightarrow> string) \<Rightarrow> string \<Rightarrow> string \<Rightarrow> bool" where
  "verify_password sha256 plain_password hashed_password =
     (get_password_hash sha256 plain_password = hashed_password)"

text \<open>
  \<open>create_access_token(data={"sub": sub})\<close> is always called without \<open>expires_delta\<close>;
  \<open>jwt_encode sub exp\<close> stands for \<open>jwt.encode\<close> of the claims \<open>sub\<close> and \<open>exp\<close>.
\<close>

definition create_access_token ::
  "(string \<Rightarrow> datetime \<Rightarrow> string) \<Rightarrow> instant \<Rightarrow> string \<Rightarrow> string" where
  "create_access_token jwt_encode now_read sub =
     jwt_encode sub (Aware (now_read + timedelta_minutes ACCESS_TOKEN_EXPIRE_MINUTES))"

definition string_digits :: string where
  "string_digits = ''0123456789''"

text \<open>
  \<open>random.choices(population, k=k)\<close> draws \<open>k\<close> elements with replacement; each draw is an
  index below \<open>len(population)\<close>, here the k-th draw of the generator reduced to that range.
  The only population in the program is \<open>string.digits\<close>, which is not empty.
\<close>

definition random_choices :: "(nat \<Rightarrow> nat) \<Rightarrow> 'a list \<Rightarrow> nat \<Rightarrow> 'a list" where
  "random_choices rnd population k =
     map (\<lambda>i. population ! (rnd i mod length population)) [0..<k]"

definition generate_otp :: "(nat \<Rightarrow> nat) \<Rightarrow> string" where
  "generate_otp rnd = random_choices rnd string_digits 6"

text \<open>
  \<open>generate_qr_code\<close>: \<open>render data\<close> stands for the base64 text of the PNG image that the
  \<open>qrcode\<close> library draws for \<open>data\<close>.
\<close>

definition generate_qr_code :: "(string \<Rightarrow> string) \<Rightarrow> string \<Rightarrow> string" where
  "generate_qr_code render data = ''data:image/png;base64,'' @ render data"

text \<open>The mock mail service: it logs and returns \<open>True\<close>.\<close>

definition send_otp_email :: "string \<Rightarrow> string \<Rightarrow> bool" where
  "send_otp_email email otp = True"

definition require_role :: "string list \<Rightarrow> User \<Rightarrow> error + User" where
  "require_role allowed_roles current_user =
     (if u_role current_user \<notin> set allowed_roles
      then Inl (HTTPException 403 ''Not enough permissions'')
      else Inr current_user)"

text \<open>
  \<open>Depends(d)\<close> in a handler's signature: the dependency runs before the handler's body,
  and an exception it raises is the answer of the request.
\<close>

definition Depends :: "error + 'a \<Rightarrow> ('a \<Rightarrow> error + 'b) \<Rightarrow> error + 'b" where
  "Depends d body = (case d of Inl e \<Rightarrow> Inl e | Inr x \<Rightarrow> body x)"

section \<open>QR code and attendance endpoints\<close>

text \<open>The payload string of a session: line 345.\<close>

definition qr_data :: "string \<Rightarrow> string \<Rightarrow> string \<Rightarrow> string" where
  "qr_data sid class_id uid = ''attendance:'' @ sid @ '':'' @ class_id @ '':'' @ uid"

definition generate_qr_session ::
  "database \<Rightarrow> (nat \<Rightarrow> instant) \<Rightarrow> string \<Rightarrow> (string \<Rightarrow> string) \<Rightarrow>
   string \<Rightarrow> string \<Rightarrow> User \<Rightarrow> error + (database \<times> QRCodeResponse)" where
  "generate_qr_session db now uuid render class_id subject caller =
     Depends (require_role [CLASS_TEACHER, SUB_TEACHER] caller) (\<lambda>current_user.
       if u_role current_user = CLASS_TEACHER \<and> u_class_id current_user \<noteq> Some class_id
       then Inl (HTTPException 403 ''Not assigned to this class'')
       else
         let sid = uuid;
             exp = Aware (now 0 + timedelta_minutes 15);
             qr_code = generate_qr_code render (qr_data sid class_id (u_id current_user));
             qr_session = \<lparr>qs_id = sid, qs_class_id = class_id,
                           qs_teacher_id = u_id current_user, qs_subject = subject,
                           qs_qr_code = qr_code, qs_expires_at = exp,
                           qs_created_at = Aware (now 1)\<rparr>
         in Inr (db\<lparr>qr_sessions := insert_one qr_session (qr_sessions db)\<rparr>,
                 \<lparr>qr_code_base64 = qr_code, session_id = sid, expires_at = exp\<rparr>))"

text \<open>
  \<open>scan_qr_code\<close> returns the new database, the tasks it put on \<open>background_tasks\<close>
  (the arguments of \<open>send_otp_email\<close>) and the response. Line 374 orders the aware
  \<open>datetime.now(timezone.utc)\<close> against the \<open>expires_at\<close> of the session read back from
  the store.
\<close>

definition scan_qr_code ::
  "database \<Rightarrow> (nat \<Rightarrow> instant) \<Rightarrow> (nat \<Rightarrow> nat) \<Rightarrow> string \<Rightarrow> User \<Rightarrow>
   error + (database \<times> (string \<times> string) list \<times> (string \<times> string) list)" where
  "scan_qr_code db now rnd qr_session_id caller =
     Depends (require_role [STUDENT] caller) (\<lambda>current_user.
       case find_one (\<lambda>s. qs_id s = qr_session_id) (qr_sessions db) of
         None \<Rightarrow> Inl (HTTPException 404 ''Invalid QR code'')
       | Some qr_session \<Rightarrow>
           let qr_session_obj = read_QRSession qr_session
           in case datetime_gt (Aware (now 0)) (qs_expires_at qr_session_obj) of
                Inl e \<Rightarrow> Inl e
              | Inr expired \<Rightarrow>
                  if expired
                  then Inl (HTTPException 400 ''QR code has expired'')
                  else if u_class_id current_user \<noteq> Some (qs_class_id qr_session_obj)
                  then Inl (HTTPException 403 ''Not enrolled in this class'')
                  else
                    (case find_one (\<lambda>a. att_student_id a = u_id current_user \<and>
                                         att_qr_session_id a = qr_session_id)
                            (attendance db) of
                       Some existing_attendance \<Rightarrow>
                         Inl (HTTPException 400 ''Attendance already marked'')
                     | None \<Rightarrow>
                         let otp = generate_otp rnd;
                             otp_request =
                               \<lparr>otp_student_id = u_id current_user,
                                otp_qr_session_id = qr_session_id,
                                otp_otp = otp,
                                otp_expires_at = Aware (now 1 + timedelta_minutes 5),
                                otp_verified = False,
                                otp_created_at = Aware (now 2)\<rparr>
                         in Inr (db\<lparr>otp_requests :=
                                       insert_one otp_request (otp_requests db)\<rparr>,
                                 [(u_email current_user, otp)],
                                 [(''message'', ''OTP sent to your email''),
                                  (''expires_in'', ''5 minutes'')])))"

text \<open>
  \<open>verify_otp\<close>. Line 420 orders the aware \<open>datetime.now(timezone.utc)\<close> against the
  \<open>expires_at\<close> of the challenge read back from the store. \<open>QRSession(**qr_session)\<close> on
  line 425 raises \<open>TypeError\<close> when \<open>find_one\<close> returned \<open>None\<close>.
\<close>

definition verify_otp ::
  "database \<Rightarrow> (nat \<Rightarrow> instant) \<Rightarrow> string \<Rightarrow> OTPVerification \<Rightarrow> User \<Rightarrow>
   error + (database \<times> (string \<times> string) list)" where
  "verify_otp db now uuid verification caller =
     Depends (require_role [STUDENT] caller) (\<lambda>current_user.
       case find_one_with_id
              (\<lambda>r. otp_student_id r = u_id current_user \<and>
                    otp_qr_session_id r = ov_qr_session_id verification \<and>
                    otp_otp r = ov_otp verification \<and>
                    otp_verified r = False) (otp_requests db) of
         None \<Rightarrow> Inl (HTTPException 400 ''Invalid OTP'')
       | Some (oid, otp_request) \<Rightarrow>
           let otp_obj = read_OTPRequest otp_request
           in case datetime_gt (Aware (now 0)) (otp_expires_at otp_obj) of
                Inl e \<Rightarrow> Inl e
              | Inr expired \<Rightarrow>
                  if expired
                  then Inl (HTTPException 400 ''OTP has expired'')
                  else
                    (case find_one (\<lambda>s. qs_id s = ov_qr_session_id verification)
                            (qr_sessions db) of
                       None \<Rightarrow> Inl TypeError
                     | Some qr_session \<Rightarrow>
                         let qr_session_obj = read_QRSession qr_session;
                             att = \<lparr>att_id = uuid,
                                    att_student_id = u_id current_user,
                                    att_class_id = qs_class_id qr_session_obj,
                                    att_teacher_id = qs_teacher_id qr_session_obj,
                                    att_subject = qs_subject qr_session_obj,
                                    att_date = Aware (now 1),
                                    att_status = ''present'',
                                    att_qr_session_id = ov_qr_session_id verification,
                                    att_created_at = Aware (now 2)\<rparr>;
                             db1 = db\<lparr>attendance := insert_one att (attendance db)\<rparr>;
                             db2 = db1\<lparr>otp_requests :=
                                          update_one oid (\<lambda>r. r\<lparr>otp_verified := True\<rparr>)
                                            (otp_requests db1)\<rparr>
                         in Inr (db2, [(''message'', ''Attendance marked successfully'')])))"

section \<open>Authentication endpoints\<close>

definition register_user ::
  "database \<Rightarrow> (nat \<Rightarrow> instant) \<Rightarrow> string \<Rightarrow> (string \<Rightarrow> string) \<Rightarrow>
   UserCreate \<Rightarrow> User \<Rightarrow> error + (database \<times> User)" where
  "register_user db now uuid sha256 user_data caller =
     Depends (require_role [SUPERADMIN, SUBADMIN] caller) (\<lambda>current_user.
       case find_one (\<lambda>d. u_email (doc_user d) = uc_email user_data) (users db) of
         Some existing_user \<Rightarrow> Inl (HTTPException 400 ''Email already registered'')
       | None \<Rightarrow>
           let hashed_password = get_password_hash sha256 (uc_password user_data);
               user_obj = \<lparr>u_id = uuid, u_email = uc_email user_data,
                           u_username = uc_username user_data, u_role = uc_role user_data,
                           u_department_id = uc_department_id user_data,
                           u_class_id = uc_class_id user_data,
                           u_roll_no = uc_roll_no user_data,
                           u_working_time = uc_working_time user_data,
                           u_created_at = Aware (now 0), u_is_active = True\<rparr>;
               user_with_password = \<lparr>doc_user = user_obj,
                                      doc_hashed_password = Some hashed_password\<rparr>
           in Inr (db\<lparr>users := insert_one user_with_password (users db)\<rparr>, user_obj))"

text \<open>
  \<open>login\<close>: \<open>user["hashed_password"]\<close> raises \<open>KeyError\<close> when the document found has no
  such key; the lookup is evaluated only when a document was found.
\<close>

definition login ::
  "database \<Rightarrow> (nat \<Rightarrow> instant) \<Rightarrow> (string \<Rightarrow> string) \<Rightarrow>
   (string \<Rightarrow> datetime \<Rightarrow> string) \<Rightarrow> UserLogin \<Rightarrow> error + Token" where
  "login db now sha256 jwt_encode user_credentials =
     (case find_one (\<lambda>d. u_email (doc_user d) = ul_email user_credentials) (users db) of
        None \<Rightarrow> Inl (HTTPException 401 ''Incorrect email or password'')
      | Some user \<Rightarrow>
          (case doc_hashed_password user of
             None \<Rightarrow> Inl (KeyError ''hashed_password'')
           | Some hashed \<Rightarrow>
               if \<not> verify_password sha256 (ul_password user_credentials) hashed
               then Inl (HTTPException 401 ''Incorrect email or password'')
               else Inr \<lparr>access_token =
                           create_access_token jwt_encode (now 0) (u_id (doc_user user)),
                         token_type = ''bearer'',
                         token_user = read_User (doc_user user)\<rparr>))"

definition student_login ::
  "database \<Rightarrow> (nat \<Rightarrow> instant) \<Rightarrow> (string \<Rightarrow> datetime \<Rightarrow> string) \<Rightarrow>
   StudentLogin \<Rightarrow> error + Token" where
  "student_login db now jwt_encode credentials =
     (case find_one (\<lambda>d. u_roll_no (doc_user d) = Some (sl_roll_no credentials) \<and>
                          u_email (doc_user d) = sl_email credentials \<and>
                          u_role (doc_user d) = STUDENT) (users db) of
        None \<Rightarrow> Inl (HTTPException 401 ''Invalid roll number or email'')
      | Some user \<Rightarrow>
          Inr \<lparr>access_token =
                  create_access_token jwt_encode (now 0) (u_id (doc_user user)),
                token_type = ''bearer'',
                token_user = read_User (doc_user user)\<rparr>)"

section \<open>Department, class and schedule endpoints\<close>

definition create_department ::
  "database \<Rightarrow> (nat \<Rightarrow> instant) \<Rightarrow> string \<Rightarrow> string \<Rightarrow> User \<Rightarrow>
   error + (database \<times> Department)" where
  "create_department db now uuid name caller =
     Depends (require_role [SUPERADMIN] caller) (\<lambda>current_user.
       let department = \<lparr>d_id = uuid, d_name = name, d_created_at = Aware (now 0),
                          d_created_by = u_id current_user\<rparr>
       in Inr (db\<lparr>departments := insert_one department (departments db)\<rparr>, department))"

definition create_class ::
  "database \<Rightarrow> (nat \<Rightarrow> instant) \<Rightarrow> string \<Rightarrow> string \<Rightarrow> string \<Rightarrow> User \<Rightarrow>
   error + (database \<times> Class)" where
  "create_class db now uuid name department_id caller =
     Depends (require_role [SUBADMIN] caller) (\<lambda>current_user.
       case find_one (\<lambda>d. d_id d = department_id) (departments db) of
         None \<Rightarrow> Inl (HTTPException 404 ''Department not found'')
       | Some department \<Rightarrow>
           let class_obj = \<lparr>c_id = uuid, c_name = name, c_department_id = department_id,
                            c_created_at = Aware (now 0), c_created_by = u_id current_user\<rparr>
           in Inr (db\<lparr>classes := insert_one class_obj (classes db)\<rparr>, class_obj))"

definition create_schedule ::
  "database \<Rightarrow> Schedule \<Rightarrow> User \<Rightarrow> error + (database \<times> Schedule)" where
  "create_schedule db schedule_data caller =
     Depends (require_role [SUBADMIN] caller) (\<lambda>current_user.
       Inr (db\<lparr>schedules := insert_one schedule_data (schedules db)\<rparr>, schedule_data))"

section \<open>Student management\<close>

text \<open>
  \<open>add_student\<close> overwrites \<open>role\<close> and \<open>class_id\<close> of the request body, drops the password
  and inserts \<open>user_obj.dict()\<close>, which has no key \<open>hashed_password\<close>.
\<close>

definition add_student ::
  "database \<Rightarrow> (nat \<Rightarrow> instant) \<Rightarrow> string \<Rightarrow> UserCreate \<Rightarrow> User \<Rightarrow>
   error + (database \<times> User)" where
  "add_student db now uuid student_data0 caller =
     Depends (require_role [CLASS_TEACHER] caller) (\<lambda>current_user.
       let student_data = student_data0\<lparr>uc_role := STUDENT,
                                         uc_class_id := u_class_id current_user\<rparr>
       in case find_one (\<lambda>d. u_email (doc_user d) = uc_email student_data) (users db) of
            Some existing \<Rightarrow> Inl (HTTPException 400 ''Student already exists'')
          | None \<Rightarrow>
              let user_obj = \<lparr>u_id = uuid, u_email = uc_email student_data,
                              u_username = uc_username student_data,
                              u_role = uc_role student_data,
                              u_department_id = uc_department_id student_data,
                              u_class_id = uc_class_id student_data,
                              u_roll_no = uc_roll_no student_data,
                              u_working_time = uc_working_time student_data,
                              u_created_at = Aware (now 0), u_is_active = True\<rparr>
              in Inr (db\<lparr>users := insert_one \<lparr>doc_user = user_obj,
                                                   doc_hashed_password = None\<rparr> (users db)\<rparr>,
                      user_obj))"

definition get_students :: "database \<Rightarrow> User \<Rightarrow> error + User list" where
  "get_students db caller =
     Depends (require_role [CLASS_TEACHER, SUB_TEACHER] caller) (\<lambda>current_user.
       Inr (map (\<lambda>d. read_User (doc_user d))
              (filter (\<lambda>d. u_role (doc_user d) = STUDENT \<and>
                            (if u_role current_user = CLASS_TEACHER
                             then u_class_id (doc_user d) = u_class_id current_user
                             else True))
                 (users db))))"

section \<open>Reports\<close>

text \<open>The truth value Python gives an optional string: \<open>None\<close> and \<open>""\<close> are false.\<close>

definition truthy :: "string option \<Rightarrow> bool" where
  "truthy s = (case s of None \<Rightarrow> False | Some t \<Rightarrow> t \<noteq> [])"

record enriched_record =
  er_record :: Attendance
  er_student_name :: string
  er_student_roll_no :: "string option"
  er_class_name :: string

text \<open>
  \<open>get_attendance_report\<close>: \<open>fromisoformat\<close> stands for \<open>datetime.fromisoformat\<close>, which
  raises \<open>ValueError\<close> on a malformed string (\<open>None\<close> here). The query on \<open>class_id\<close> is
  absent, or asks for a value that may be \<open>None\<close> (the teacher's own class). The store
  compares the dates of the query and of the documents by their milliseconds.
\<close>

definition get_attendance_report ::
  "database \<Rightarrow> (string \<Rightarrow> datetime option) \<Rightarrow> string option \<Rightarrow> string option \<Rightarrow>
   string option \<Rightarrow> User \<Rightarrow> error + enriched_record list" where
  "get_attendance_report db fromisoformat class_id start_date end_date caller =
     Depends (require_role [CLASS_TEACHER, SUB_TEACHER, SUBADMIN] caller) (\<lambda>current_user.
       let q_class = (if truthy class_id then Some class_id
                      else if u_role current_user = CLASS_TEACHER
                      then Some (u_class_id current_user) else None);
           q_date = (case (start_date, end_date) of
                       (Some sd, Some ed) \<Rightarrow>
                         if sd \<noteq> [] \<and> ed \<noteq> []
                         then (case fromisoformat sd of
                                 None \<Rightarrow> Inl ValueError
                               | Some start_dt \<Rightarrow>
                                   (case fromisoformat ed of
                                      None \<Rightarrow> Inl ValueError
                                    | Some end_dt \<Rightarrow> Inr (Some (start_dt, end_dt))))
                         else Inr None
                     | _ \<Rightarrow> Inr None)
       in case q_date of
            Inl e \<Rightarrow> Inl e
          | Inr date_range \<Rightarrow>
              let attendance_records =
                    filter (\<lambda>a. (case q_class of None \<Rightarrow> True
                                  | Some c \<Rightarrow> Some (att_class_id a) = c) \<and>
                                 (case date_range of None \<Rightarrow> True
                                  | Some (start_dt, end_dt) \<Rightarrow>
                                      bson_millis start_dt \<le> bson_millis (att_date a) \<and>
                                      bson_millis (att_date a) \<le> bson_millis end_dt))
                      (attendance db)
              in Inr (map (\<lambda>rec.
                        let student = find_one (\<lambda>d. u_id (doc_user d) = att_student_id rec)
                                        (users db);
                            class_info = find_one (\<lambda>c. c_id c = att_class_id rec)
                                           (classes db)
                        in \<lparr>er_record = read_Attendance rec,
                            er_student_name =
                              (case student of None \<Rightarrow> ''Unknown''
                               | Some d \<Rightarrow> u_username (doc_user d)),
                            er_student_roll_no =
                              (case student of None \<Rightarrow> Some ''Unknown''
                               | Some d \<Rightarrow> u_roll_no (doc_user d)),
                            er_class_name =
                              (case class_info of None \<Rightarrow> ''Unknown''
                               | Some c \<Rightarrow> c_name c)\<rparr>)
                      attendance_records))"

section \<open>Stores reachable through the endpoints\<close>


section \<open>Reading a payload string back\<close>

text \<open>
  Modelled from the spec: the decoder of a session's payload string. The repository has
  no code that reads a payload back (the scanner is not among its Python sources); the
  spec asks that decoding ``recovers the original session id, class id, and issuer id''
  from the string that \<open>generate_qr_session\<close> builds on line 345. The decoder is written
  with \<open>str.split\<close> and \<open>str.join\<close> of Python, which are \<open>split_on\<close> and \<open>join_with\<close>.
\<close>

fun split_on :: "char \<Rightarrow> string \<Rightarrow> string list" where
  "split_on sep [] = [[]]"
| "split_on sep (x # xs) =
     (if x = sep then [] # split_on sep xs
      else (case split_on sep xs of [] \<Rightarrow> [[x]] | p # ps \<Rightarrow> (x # p) # ps))"

fun join_with :: "char \<Rightarrow> string list \<Rightarrow> string" where
  "join_with sep [] = []"
| "join_with sep [p] = p"
| "join_with sep (p # q # ps) = p @ sep # join_with sep (q # ps)"

text \<open>
  Modelled from the spec: \<open>decode_qr_data\<close> reads a payload string back. It asks for the
  tag and at least three fields after it; the field after the tag is the session id, the
  last field is the issuer id, and what lies between them is the class id, which the
  caller of \<open>generate_qr_session\<close> sends and which may contain the separator.
\<close>

definition decode_qr_data :: "string \<Rightarrow> (string \<times> string \<times> string) option" where
  "decode_qr_data payload =
     (let parts = split_on CHR '':'' payload
      in if length parts < 4 \<or> hd parts \<noteq> ''attendance'' then None
         else Some (parts ! 1, join_with CHR '':'' (butlast (drop 2 parts)), last parts))"

section \<open>Example data\<close>

text \<open>
  A request served within one tick of the clock reads the same time at every call;
  a generator that always draws \<open>d\<close>; a renderer that returns its payload unchanged.
\<close>

definition clock_at :: "instant \<Rightarrow> nat \<Rightarrow> instant" where
  "clock_at t k = t"

definition draw :: "nat \<Rightarrow> nat \<Rightarrow> nat" where
  "draw d k = d"

definition plain_render :: "string \<Rightarrow> string" where
  "plain_render data = data"

definition empty_db :: database where
  "empty_db = \<lparr>users = [], departments = [], classes = [], schedules = [],
                qr_sessions = [], otp_requests = [], attendance = []\<rparr>"

definition teacher_T :: User where
  "teacher_T = \<lparr>u_id = ''T'', u_email = ''t@school.com'', u_username = ''Teacher T'',
                 u_role = ''class_teacher'', u_department_id = None, u_class_id = Some ''C'',
                 u_roll_no = None, u_working_time = None, u_created_at = Aware 0,
                 u_is_active = True\<rparr>"

definition student_A :: User where
  "student_A = \<lparr>u_id = ''A'', u_email = ''a@school.com'', u_username = ''Student A'',
                 u_role = ''student'', u_department_id = None, u_class_id = Some ''C'',
                 u_roll_no = Some ''CS0001'', u_working_time = None, u_created_at = Aware 0,
                 u_is_active = True\<rparr>"

text \<open>The session teacher T issues at time 0 for class C: it expires after 15 minutes.\<close>

definition session_S :: QRSession where
  "session_S = \<lparr>qs_id = ''S'', qs_class_id = ''C'', qs_teacher_id = ''T'',
                 qs_subject = ''Mathematics'',
                 qs_qr_code = ''data:image/png;base64,attendance:S:C:T'',
                 qs_expires_at = Aware 900000000, qs_created_at = Aware 0\<rparr>"

definition db_S :: database where
  "db_S = empty_db\<lparr>qr_sessions := [session_S]\<rparr>"

text \<open>
  A challenge of student A for session S with the code 444444, expiring at minute 5, and
  a store that holds it beside the session.
\<close>

definition otp_444 :: OTPRequest where
  "otp_444 = \<lparr>otp_student_id = ''A'', otp_qr_session_id = ''S'', otp_otp = ''444444'',
               otp_expires_at = Aware 300000000, otp_verified = False,
               otp_created_at = Aware 0\<rparr>"

definition db_S_challenge :: database where
  "db_S_challenge = db_S\<lparr>otp_requests := [otp_444]\<rparr>"

text \<open>A store that holds a live challenge of student A for a session that is gone.\<close>

definition db_orphan :: database where
  "db_orphan = empty_db\<lparr>otp_requests := [otp_444]\<rparr>"

text \<open>
  The body class teacher T sends to \<open>add_student\<close>, asking for another role and class,
  and the store after the request.
\<close>

definition student_request :: UserCreate where
  "student_request = \<lparr>uc_email = ''a@school.com'', uc_username = ''Student A'',
                       uc_password = ''dummy'', uc_role = ''superadmin'',
                       uc_department_id = None, uc_class_id = Some ''Z'',
                       uc_roll_no = Some ''CS0001'', uc_working_time = None\<rparr>"

definition db_A :: database where
  "db_A = empty_db\<lparr>users := [\<lparr>doc_user = student_A, doc_hashed_password = None\<rparr>]\<rparr>"

text \<open>A sub teacher, who may issue sessions for any class id.\<close>

definition sub_teacher_U :: User where
  "sub_teacher_U = \<lparr>u_id = ''U'', u_email = ''u@school.com'', u_username = ''Teacher U'',
                     u_role = ''sub_teacher'', u_department_id = None, u_class_id = None,
                     u_roll_no = None, u_working_time = None, u_created_at = Aware 0,
                     u_is_active = True\<rparr>"

section \<open>Facts about the store operations\<close>

lemmas example_defs = clock_at_def draw_def plain_render_def empty_db_def teacher_T_def
  student_A_def session_S_def db_S_def otp_444_def db_S_challenge_def db_orphan_def
  student_request_def db_A_def sub_teacher_U_def

lemmas role_defs = SUPERADMIN_def SUBADMIN_def CLASS_TEACHER_def SUB_TEACHER_def STUDENT_def

lemmas store_defs = Depends_def require_role_def insert_one_def update_one_def
  find_one_with_id_def timedelta_minutes_def

lemmas read_defs = read_User_def read_QRSession_def read_OTPRequest_def read_Attendance_def

lemma find_one_None_iff: "find_one q xs = None \<longleftrightarrow> (\<forall>x\<in>set xs. \<not> q x)"
  by (induction xs) auto

lemma find_one_Some_D: "find_one q xs = Some x \<Longrightarrow> x \<in> set xs \<and> q x"
  by (induction xs) (auto split: if_splits)

lemma find_one_append:
  "find_one q (xs @ ys) = (case find_one q xs of None \<Rightarrow> find_one q ys | Some x \<Rightarrow> Some x)"
  by (induction xs) auto

lemma find_one_with_id_None_iff:
  "find_one_with_id q xs = None \<longleftrightarrow> (\<forall>x\<in>set xs. \<not> q x)"
proof -
  have "find_one_from n q xs = None \<longleftrightarrow> (\<forall>x\<in>set xs. \<not> q x)" for n
    by (induction xs arbitrary: n) auto
  then show ?thesis by (simp add: find_one_with_id_def)
qed

lemma generate_otp_length: "length (generate_otp rnd) = 6"
  by (simp add: generate_otp_def random_choices_def)

lemma random_choices_subset:
  "population \<noteq> [] \<Longrightarrow> set (random_choices rnd population k) \<subseteq> set population"
  by (auto simp: random_choices_def intro!: nth_mem)

lemma generate_otp_digits: "set (generate_otp rnd) \<subseteq> set string_digits"
  unfolding generate_otp_def by (rule random_choices_subset) (simp add: string_digits_def)

lemma add_student_example:
  "add_student empty_db (clock_at 0) ''A'' student_request teacher_T = Inr (db_A, student_A)"
  by (simp add: add_student_def example_defs store_defs
      role_defs Let_def)


lemma generate_example_U:
  "generate_qr_session empty_db (clock_at 0) ''S'' plain_render ''C:1'' ''Mathematics''
     sub_teacher_U
     = Inr (empty_db\<lparr>qr_sessions :=
                       [\<lparr>qs_id = ''S'', qs_class_id = ''C:1'', qs_teacher_id = ''U'',
                         qs_subject = ''Mathematics'',
                         qs_qr_code = ''data:image/png;base64,attendance:S:C:1:U'',
                         qs_expires_at = Aware 900000000,
                         qs_created_at = Aware 0\<rparr>]\<rparr>,
            \<lparr>qr_code_base64 = ''data:image/png;base64,attendance:S:C:1:U'',
             session_id = ''S'', expires_at = Aware 900000000\<rparr>)"
  by (simp add: generate_qr_session_def generate_qr_code_def qr_data_def
      example_defs store_defs role_defs Let_def)

subsection \<open>A date read back from the store against the clock\<close>

text \<open>
  Every date a handler reads back is naive and every clock reading is aware: the
  comparisons of lines 374 and 420 raise for every session and every challenge found.
\<close>

lemma datetime_gt_now_from_store: "datetime_gt (Aware t) (from_store d) = Inl TypeError"
  by (simp add: datetime_gt_def from_store_def)





subsection \<open>The reachable stores\<close>



subsection \<open>Splitting and joining\<close>

lemma split_on_not_Nil: "split_on sep s \<noteq> []"
  by (induction s) (auto split: list.splits)

lemma split_on_append: "split_on sep (a @ sep # b) = split_on sep a @ split_on sep b"
proof (induction a)
  case Nil
  then show ?case by simp
next
  case (Cons x a)
  show ?case
  proof (cases "x = sep")
    case True
    then show ?thesis using Cons by (simp add: Let_def)
  next
    case False
    obtain p ps where r: "split_on sep a = p # ps"
      using split_on_not_Nil[of sep a] by (cases "split_on sep a") auto
    show ?thesis using False Cons r by (simp add: Let_def)
  qed
qed

lemma split_on_free: "sep \<notin> set a \<Longrightarrow> split_on sep a = [a]"
  by (induction a) auto

lemma join_with_Cons:
  "ps \<noteq> [] \<Longrightarrow> join_with sep (p # ps) = p @ sep # join_with sep ps"
  by (cases ps) auto

lemma join_split_on: "join_with sep (split_on sep s) = s"
proof (induction s)
  case Nil
  then show ?case by simp
next
  case (Cons x s)
  obtain p ps where r: "split_on sep s = p # ps"
    using split_on_not_Nil[of sep s] by (cases "split_on sep s") auto
  show ?case
  proof (cases "x = sep")
    case True
    then show ?thesis using Cons r by (simp add: Let_def)
  next
    case False
    show ?thesis
    proof (cases ps)
      case Nil
      then show ?thesis using False Cons r by (simp add: Let_def)
    next
      case (Cons q qs)
      then show ?thesis using False Cons.IH r by (simp add: Let_def)
    qed
  qed
qed

lemma split_on_qr_data:
  assumes "CHR '':'' \<notin> set sid" "CHR '':'' \<notin> set uid"
  shows "split_on CHR '':'' (qr_data sid class_id uid)
           = ''attendance'' # sid # split_on CHR '':'' class_id @ [uid]"
proof -
  have "qr_data sid class_id uid
          = ''attendance'' @ CHR '':'' # (sid @ CHR '':'' # (class_id @ CHR '':'' # uid))"
    by (simp add: qr_data_def)
  then show ?thesis
    using assms by (simp only: split_on_append) (simp add: split_on_free)
qed

lemma decode_qr_data_qr_data:
  assumes "CHR '':'' \<notin> set sid" "CHR '':'' \<notin> set uid"
  shows "decode_qr_data (qr_data sid class_id uid) = Some (sid, class_id, uid)"
proof -
  obtain p ps where r: "split_on CHR '':'' class_id = p # ps"
    using split_on_not_Nil[of "CHR '':''" class_id]
    by (cases "split_on CHR '':'' class_id") auto
  have j: "join_with CHR '':'' (p # ps) = class_id"
    using join_split_on[of "CHR '':''" class_id] r by simp
  show ?thesis
    unfolding decode_qr_data_def split_on_qr_data[OF assms] r
    using j by (simp add: Let_def butlast_append)
qed

section \<open>The claims\<close>

subsection \<open>C1: one attendance record per student and session\<close>



subsection \<open>C2: the outcomes of a challenge request\<close>

text \<open>
  Claim C2: \<open>scan_qr_code\<close> answers 404 iff no session has the id; otherwise ``QR code has
  expired'' iff the clock is past the session's expiry; otherwise 403 iff the student's
  class differs; otherwise ``Attendance already marked'' iff a record exists; otherwise
  it succeeds and inserts one challenge with a code of six digits that expires five
  minutes later.

  The code does not do this. It makes each of these checks, in this order, but the first
  one after the lookup, on line 374, orders the aware \<open>datetime.now(timezone.utc)\<close>
  against the \<open>expires_at\<close> that the client of line 35 has read back as a naive
  \<open>datetime\<close>, and raises \<open>TypeError\<close>. Teacher T issues session S for class C at time
  0; student A of class C, without a record, scans it at once: the request ends in an
  unhandled exception where the claim has it succeed.
\<close>

theorem scan_qr_code_raises_TypeError:
  "generate_qr_session empty_db (clock_at 0) ''S'' plain_render ''C'' ''Mathematics'' teacher_T
     = Inr (db_S, \<lparr>qr_code_base64 = ''data:image/png;base64,attendance:S:C:T'',
                   session_id = ''S'', expires_at = Aware 900000000\<rparr>)
   \<and> find_one (\<lambda>s. qs_id s = ''S'') (qr_sessions db_S) = Some session_S
   \<and> qs_expires_at (read_QRSession session_S) = Naive 900000000
   \<and> datetime_gt (Aware (clock_at 0 0)) (Naive 900000000) = Inl TypeError
   \<and> scan_qr_code db_S (clock_at 0) (draw 4) ''S'' student_A = Inl TypeError"
  by (simp add: generate_qr_session_def generate_qr_code_def qr_data_def scan_qr_code_def
      datetime_gt_def from_store_def bson_millis_def read_defs example_defs store_defs
      role_defs Let_def)

subsection \<open>C3: verification when the session record is gone\<close>

text \<open>
  Claim C3: when \<open>verify_otp\<close> finds a matching unconsumed, unexpired challenge and the
  parent session is absent from the store, it fails with the NotFound error.

  The code does not do this. \<open>scan_qr_code\<close> answers 404 when \<open>find_one\<close> returns nothing;
  \<open>verify_otp\<close> passes the result of \<open>find_one\<close> to \<open>QRSession(**qr_session)\<close> unchecked,
  which raises \<open>TypeError\<close>. With the client of line 35 the request does not get that far:
  the comparison of line 420 raises \<open>TypeError\<close> first. Either way the request ends in
  an unhandled exception, not in an \<open>HTTPException\<close> with status 404.
\<close>

theorem verify_otp_session_absent_raises:
  "verify_otp db_orphan (clock_at 120000000) ''R1''
     \<lparr>ov_qr_session_id = ''S'', ov_otp = ''444444''\<rparr> student_A = Inl TypeError"
  by (simp add: verify_otp_def datetime_gt_def from_store_def bson_millis_def read_defs
      example_defs store_defs STUDENT_def Let_def)

subsection \<open>C4: the expiry of a challenge against the expiry of its session\<close>



subsection \<open>C5: issuing a session\<close>

text \<open>
  Claim C5: for an issuer whose role is class teacher or sub teacher,
  \<open>generate_qr_session\<close> answers 403 ``Not assigned to this class'' when the issuer is a
  class teacher whose class is not the class asked for; otherwise it succeeds: the store
  gains exactly one session and nothing else changes, the session expires fifteen minutes
  after the clock reading, its QR code is the rendering of the payload string
  \<open>attendance:<session id>:<class id>:<issuer id>\<close>, and the response carries the
  session id, that QR code and the expiry.
\<close>

theorem generate_qr_session_outcomes:
  assumes role: "u_role u = CLASS_TEACHER \<or> u_role u = SUB_TEACHER"
  shows "(u_role u = CLASS_TEACHER \<and> u_class_id u \<noteq> Some class_id \<longrightarrow>
            generate_qr_session db now uuid render class_id subject u
              = Inl (HTTPException 403 ''Not assigned to this class''))
       \<and> (\<not> (u_role u = CLASS_TEACHER \<and> u_class_id u \<noteq> Some class_id) \<longrightarrow>
            (\<exists>s. generate_qr_session db now uuid render class_id subject u
                    = Inr (db\<lparr>qr_sessions := qr_sessions db @ [s]\<rparr>,
                           \<lparr>qr_code_base64 = qs_qr_code s, session_id = uuid,
                            expires_at = Aware (now 0 + timedelta_minutes 15)\<rparr>)
                \<and> qs_id s = uuid \<and> qs_class_id s = class_id
                \<and> qs_teacher_id s = u_id u \<and> qs_subject s = subject
                \<and> qs_expires_at s = Aware (now 0 + timedelta_minutes 15)
                \<and> qs_qr_code s
                    = generate_qr_code render
                        (''attendance:'' @ uuid @ '':'' @ class_id @ '':'' @ u_id u)))"
proof -
  let ?s = "\<lparr>qs_id = uuid, qs_class_id = class_id, qs_teacher_id = u_id u,
              qs_subject = subject,
              qs_qr_code = generate_qr_code render (qr_data uuid class_id (u_id u)),
              qs_expires_at = Aware (now 0 + timedelta_minutes 15),
              qs_created_at = Aware (now 1)\<rparr>"
  have role_ok: "require_role [CLASS_TEACHER, SUB_TEACHER] u = Inr u"
    using role by (auto simp: require_role_def)
  have denied: "u_role u = CLASS_TEACHER \<and> u_class_id u \<noteq> Some class_id \<Longrightarrow>
            generate_qr_session db now uuid render class_id subject u
              = Inl (HTTPException 403 ''Not assigned to this class'')"
    by (simp add: generate_qr_session_def Depends_def role_ok)
  have issued: "\<not> (u_role u = CLASS_TEACHER \<and> u_class_id u \<noteq> Some class_id) \<Longrightarrow>
            generate_qr_session db now uuid render class_id subject u
              = Inr (db\<lparr>qr_sessions := qr_sessions db @ [?s]\<rparr>,
                     \<lparr>qr_code_base64 = qs_qr_code ?s, session_id = uuid,
                      expires_at = Aware (now 0 + timedelta_minutes 15)\<rparr>)"
    by (simp add: generate_qr_session_def Depends_def role_ok Let_def insert_one_def)
  have fields: "qs_id ?s = uuid \<and> qs_class_id ?s = class_id
                \<and> qs_teacher_id ?s = u_id u \<and> qs_subject ?s = subject
                \<and> qs_expires_at ?s = Aware (now 0 + timedelta_minutes 15)
                \<and> qs_qr_code ?s
                    = generate_qr_code render
                        (''attendance:'' @ uuid @ '':'' @ class_id @ '':'' @ u_id u)"
    by (simp add: qr_data_def)
  show ?thesis
    using denied issued fields by (intro conjI impI exI[of _ ?s]) blast+
qed

text \<open>Teacher T of class C is refused for class D and issues session S for class C.\<close>

theorem generate_qr_session_outcomes_witness:
  "(u_role teacher_T = CLASS_TEACHER \<or> u_role teacher_T = SUB_TEACHER)
   \<and> u_class_id teacher_T = Some ''C''
   \<and> generate_qr_session empty_db (clock_at 0) ''S'' plain_render ''D'' ''Mathematics''
        teacher_T = Inl (HTTPException 403 ''Not assigned to this class'')
   \<and> (\<exists>s. generate_qr_session empty_db (clock_at 0) ''S'' plain_render ''C''
              ''Mathematics'' teacher_T
             = Inr (empty_db\<lparr>qr_sessions := qr_sessions empty_db @ [s]\<rparr>,
                    \<lparr>qr_code_base64 = qs_qr_code s, session_id = ''S'',
                     expires_at = Aware 900000000\<rparr>)
          \<and> qs_expires_at s = Aware 900000000
          \<and> qs_qr_code s = ''data:image/png;base64,attendance:S:C:T'')"
proof -
  have h: "u_role teacher_T = CLASS_TEACHER \<or> u_role teacher_T = SUB_TEACHER"
    by (simp add: teacher_T_def CLASS_TEACHER_def)
  have c: "u_class_id teacher_T = Some ''C''" "u_role teacher_T = CLASS_TEACHER"
    "u_id teacher_T = ''T''"
    by (simp_all add: teacher_T_def CLASS_TEACHER_def)
  from generate_qr_session_outcomes[OF h, of "''D''" empty_db "clock_at 0" "''S''" plain_render
      "''Mathematics''"]
  have d: "generate_qr_session empty_db (clock_at 0) ''S'' plain_render ''D'' ''Mathematics''
        teacher_T = Inl (HTTPException 403 ''Not assigned to this class'')"
    using c by simp
  from generate_qr_session_outcomes[OF h, of "''C''" empty_db "clock_at 0" "''S''" plain_render
      "''Mathematics''"]
  have e: "\<exists>s. generate_qr_session empty_db (clock_at 0) ''S'' plain_render ''C''
              ''Mathematics'' teacher_T
             = Inr (empty_db\<lparr>qr_sessions := qr_sessions empty_db @ [s]\<rparr>,
                    \<lparr>qr_code_base64 = qs_qr_code s, session_id = ''S'',
                     expires_at = Aware 900000000\<rparr>)
          \<and> qs_expires_at s = Aware 900000000
          \<and> qs_qr_code s = ''data:image/png;base64,attendance:S:C:T''"
    using c by (auto simp: clock_at_def timedelta_minutes_def generate_qr_code_def
        plain_render_def)
  show ?thesis using h c d e by blast
qed

subsection \<open>C6: the role check of every operation\<close>

text \<open>
  Claim C6: each role-checked operation answers 403 ``Not enough permissions'' exactly
  when the caller's role is outside the operation's allowed set, whatever the store holds and
  whatever the request refers to (the dependency \<open>require_role\<close> runs before the body, so
  nothing is read or written and no 404 can be returned); and the allowed sets are those
  of the role table: create department: superadmin; create class and create schedule:
  subadmin; register account: superadmin, subadmin; register student: class teacher;
  issue session and list students: class teacher, sub teacher; scan and verify: student;
  attendance report: class teacher, sub teacher, subadmin.
\<close>

theorem role_check_forbidden:
  "(create_department db now uuid name u
       = Inl (HTTPException 403 ''Not enough permissions'')
     \<longleftrightarrow> u_role u \<notin> {SUPERADMIN})
   \<and> (create_class db now uuid name department_id u
       = Inl (HTTPException 403 ''Not enough permissions'')
     \<longleftrightarrow> u_role u \<notin> {SUBADMIN})
   \<and> (create_schedule db schedule_data u
       = Inl (HTTPException 403 ''Not enough permissions'')
     \<longleftrightarrow> u_role u \<notin> {SUBADMIN})
   \<and> (register_user db now uuid sha256 user_data u
       = Inl (HTTPException 403 ''Not enough permissions'')
     \<longleftrightarrow> u_role u \<notin> {SUPERADMIN, SUBADMIN})
   \<and> (add_student db now uuid student_data u
       = Inl (HTTPException 403 ''Not enough permissions'')
     \<longleftrightarrow> u_role u \<notin> {CLASS_TEACHER})
   \<and> (generate_qr_session db now uuid render class_id subject u
       = Inl (HTTPException 403 ''Not enough permissions'')
     \<longleftrightarrow> u_role u \<notin> {CLASS_TEACHER, SUB_TEACHER})
   \<and> (get_students db u
       = Inl (HTTPException 403 ''Not enough permissions'')
     \<longleftrightarrow> u_role u \<notin> {CLASS_TEACHER, SUB_TEACHER})
   \<and> (scan_qr_code db now rnd qr_session_id u
       = Inl (HTTPException 403 ''Not enough permissions'')
     \<longleftrightarrow> u_role u \<notin> {STUDENT})
   \<and> (verify_otp db now uuid verification u
       = Inl (HTTPException 403 ''Not enough permissions'')
     \<longleftrightarrow> u_role u \<notin> {STUDENT})
   \<and> (get_attendance_report db fromisoformat class_filter start_date end_date u
       = Inl (HTTPException 403 ''Not enough permissions'')
     \<longleftrightarrow> u_role u \<notin> {CLASS_TEACHER, SUB_TEACHER, SUBADMIN})"
proof -
  have g0: "(create_department db now uuid name u = Inl (HTTPException 403 ''Not enough permissions'') \<longleftrightarrow> u_role u \<notin> {SUPERADMIN})"
    by (auto simp: create_department_def Depends_def require_role_def Let_def
        split: option.splits sum.splits if_splits)
  have g1: "(create_class db now uuid name department_id u = Inl (HTTPException 403 ''Not enough permissions'') \<longleftrightarrow> u_role u \<notin> {SUBADMIN})"
    by (auto simp: create_class_def Depends_def require_role_def Let_def
        split: option.splits sum.splits if_splits)
  have g2: "(create_schedule db schedule_data u = Inl (HTTPException 403 ''Not enough permissions'') \<longleftrightarrow> u_role u \<notin> {SUBADMIN})"
    by (auto simp: create_schedule_def Depends_def require_role_def Let_def
        split: option.splits sum.splits if_splits)
  have g3: "(register_user db now uuid sha256 user_data u = Inl (HTTPException 403 ''Not enough permissions'') \<longleftrightarrow> u_role u \<notin> {SUPERADMIN, SUBADMIN})"
    by (auto simp: register_user_def Depends_def require_role_def Let_def
        split: option.splits sum.splits if_splits)
  have g4: "(add_student db now uuid student_data u = Inl (HTTPException 403 ''Not enough permissions'') \<longleftrightarrow> u_role u \<notin> {CLASS_TEACHER})"
    by (auto simp: add_student_def Depends_def require_role_def Let_def
        split: option.splits sum.splits if_splits)
  have g5: "(generate_qr_session db now uuid render class_id subject u = Inl (HTTPException 403 ''Not enough permissions'') \<longleftrightarrow> u_role u \<notin> {CLASS_TEACHER, SUB_TEACHER})"
    by (auto simp: generate_qr_session_def Depends_def require_role_def Let_def
        split: option.splits sum.splits if_splits)
  have g6: "(get_students db u = Inl (HTTPException 403 ''Not enough permissions'') \<longleftrightarrow> u_role u \<notin> {CLASS_TEACHER, SUB_TEACHER})"
    by (auto simp: get_students_def Depends_def require_role_def Let_def
        split: option.splits sum.splits if_splits)
  have g7: "(scan_qr_code db now rnd qr_session_id u = Inl (HTTPException 403 ''Not enough permissions'') \<longleftrightarrow> u_role u \<notin> {STUDENT})"
    by (auto simp: scan_qr_code_def Depends_def require_role_def Let_def read_defs
        datetime_gt_now_from_store
        split: option.splits sum.splits if_splits)
  have g8: "(verify_otp db now uuid verification u = Inl (HTTPException 403 ''Not enough permissions'') \<longleftrightarrow> u_role u \<notin> {STUDENT})"
    by (auto simp: verify_otp_def Depends_def require_role_def Let_def read_defs
        datetime_gt_now_from_store
        split: option.splits sum.splits if_splits)
  have g9: "(get_attendance_report db fromisoformat class_filter start_date end_date u = Inl (HTTPException 403 ''Not enough permissions'') \<longleftrightarrow> u_role u \<notin> {CLASS_TEACHER, SUB_TEACHER, SUBADMIN})"
    by (auto simp: get_attendance_report_def Depends_def require_role_def Let_def
        split: option.splits sum.splits if_splits)
  show ?thesis
    using g0 g1 g2 g3 g4 g5 g6 g7 g8 g9 by blast
qed

text \<open>
  A student is refused a class under a department that does not exist with 403, not 404;
  a teacher is refused the scan of an unknown session and the verification of an orphan
  challenge.
\<close>

theorem role_check_forbidden_witness:
  "u_role student_A \<notin> {SUPERADMIN}
   \<and> create_department db_S (clock_at 0) ''K'' ''CompSci'' student_A
       = Inl (HTTPException 403 ''Not enough permissions'')
   \<and> u_role student_A \<notin> {SUBADMIN}
   \<and> create_class empty_db (clock_at 0) ''K'' ''CS-101'' ''no-such-department'' student_A
       = Inl (HTTPException 403 ''Not enough permissions'')
   \<and> u_role teacher_T \<notin> {STUDENT}
   \<and> scan_qr_code empty_db (clock_at 0) (draw 4) ''no-such-session'' teacher_T
       = Inl (HTTPException 403 ''Not enough permissions'')
   \<and> verify_otp db_orphan (clock_at 0) ''R1''
        \<lparr>ov_qr_session_id = ''S'', ov_otp = ''444444''\<rparr> teacher_T
       = Inl (HTTPException 403 ''Not enough permissions'')
   \<and> u_role student_A \<notin> {CLASS_TEACHER, SUB_TEACHER}
   \<and> generate_qr_session empty_db (clock_at 0) ''S'' plain_render ''C'' ''Mathematics''
        student_A = Inl (HTTPException 403 ''Not enough permissions'')"
proof -
  have s: "u_role student_A \<notin> {SUPERADMIN}" "u_role student_A \<notin> {SUBADMIN}"
    "u_role student_A \<notin> {CLASS_TEACHER, SUB_TEACHER}"
    by (simp_all add: student_A_def role_defs)
  have t: "u_role teacher_T \<notin> {STUDENT}"
    by (simp add: teacher_T_def role_defs)
  show ?thesis
    using s t
      role_check_forbidden[where u = student_A and db = db_S and now = "clock_at 0"
        and uuid = "''K''" and name = "''CompSci''"]
      role_check_forbidden[where u = student_A and db = empty_db
        and now = "clock_at 0" and uuid = "''K''" and name = "''CS-101''"
        and department_id = "''no-such-department''"]
      role_check_forbidden[where u = teacher_T and db = empty_db and now = "clock_at 0"
        and rnd = "draw 4" and qr_session_id = "''no-such-session''"]
      role_check_forbidden[where u = teacher_T and db = db_orphan
        and now = "clock_at 0" and uuid = "''R1''"
        and verification = "\<lparr>ov_qr_session_id = ''S'', ov_otp = ''444444''\<rparr>"]
      role_check_forbidden[where u = student_A and db = empty_db
        and now = "clock_at 0" and uuid = "''S''" and render = plain_render
        and class_id = "''C''" and subject = "''Mathematics''"]
    by simp
qed

subsection \<open>C7: the payload string read back\<close>

text \<open>
  Claim C7: for every session \<open>generate_qr_session\<close> issues, decoding the payload string
  of its QR code gives back the session id, the class id and the issuer id. The session
  id is a \<open>uuid4\<close> string and so is the id of every account the endpoints create: neither
  contains the separator \<open>:\<close>. \<open>read_qr\<close> is any reader that returns the payload a QR code
  was rendered from. The QR code of the response and the one stored with the session
  both decode to the ids of the session, whatever the class id is.
\<close>

theorem qr_payload_round_trip:
  assumes ok: "generate_qr_session db now uuid render class_id subject u = Inr (db', response)"
    and sid: "CHR '':'' \<notin> set uuid"
    and uid: "CHR '':'' \<notin> set (u_id u)"
    and reader: "\<And>p. read_qr (generate_qr_code render p) = p"
  shows "decode_qr_data (read_qr (qr_code_base64 response))
           = Some (session_id response, class_id, u_id u)
       \<and> decode_qr_data (read_qr (qs_qr_code (last (qr_sessions db'))))
           = Some (qs_id (last (qr_sessions db')), qs_class_id (last (qr_sessions db')),
                   qs_teacher_id (last (qr_sessions db')))
       \<and> qs_id (last (qr_sessions db')) = uuid
       \<and> qs_class_id (last (qr_sessions db')) = class_id
       \<and> qs_teacher_id (last (qr_sessions db')) = u_id u"
  using ok reader decode_qr_data_qr_data[OF sid uid, of class_id]
  by (auto simp: generate_qr_session_def Depends_def require_role_def Let_def insert_one_def
      split: if_splits)

text \<open>
  Sub teacher U issues session S for the class id \<open>C:1\<close>; the renderer keeps the payload
  as it is, so the reader drops the 22 characters of the prefix.
\<close>

theorem qr_payload_round_trip_witness:
  "generate_qr_session empty_db (clock_at 0) ''S'' plain_render ''C:1'' ''Mathematics''
     sub_teacher_U
     = Inr (empty_db\<lparr>qr_sessions :=
                       [\<lparr>qs_id = ''S'', qs_class_id = ''C:1'', qs_teacher_id = ''U'',
                         qs_subject = ''Mathematics'',
                         qs_qr_code = ''data:image/png;base64,attendance:S:C:1:U'',
                         qs_expires_at = Aware 900000000,
                         qs_created_at = Aware 0\<rparr>]\<rparr>,
            \<lparr>qr_code_base64 = ''data:image/png;base64,attendance:S:C:1:U'',
             session_id = ''S'', expires_at = Aware 900000000\<rparr>)
   \<and> CHR '':'' \<notin> set ''S'' \<and> CHR '':'' \<notin> set (u_id sub_teacher_U)
   \<and> (\<forall>p. drop 22 (generate_qr_code plain_render p) = p)
   \<and> decode_qr_data (drop 22 ''data:image/png;base64,attendance:S:C:1:U'')
       = Some (''S'', ''C:1'', ''U'')"
proof -
  have sid: "CHR '':'' \<notin> set ''S''" by simp
  have uid: "CHR '':'' \<notin> set (u_id sub_teacher_U)" by (simp add: sub_teacher_U_def)
  have reader: "\<And>p. drop 22 (generate_qr_code plain_render p) = p"
    by (simp add: generate_qr_code_def plain_render_def)
  from qr_payload_round_trip[OF generate_example_U sid uid reader]
  have "decode_qr_data (drop 22 ''data:image/png;base64,attendance:S:C:1:U'')
       = Some (''S'', ''C:1'', ''U'')"
    by (simp add: sub_teacher_U_def)
  then show ?thesis using generate_example_U sid uid reader by simp
qed

subsection \<open>C8: verification after the challenge has expired\<close>

text \<open>
  Claim C8: for an unverified challenge whose expiry has passed, \<open>verify_otp\<close> called with
  its code answers ``OTP has expired'' and writes nothing.

  The code does not do this. It makes the check, on line 420, but orders the aware
  \<open>datetime.now(timezone.utc)\<close> against the \<open>expires_at\<close> that the client of line 35 has
  read back as a naive \<open>datetime\<close>, and raises \<open>TypeError\<close>: the same slip as on line 374.
  The store holds session S and the challenge of student A with the code 444444, which
  expires at minute 5; A submits the code one microsecond later. The request ends in an
  unhandled exception, not in ``OTP has expired''; it writes nothing.
\<close>

theorem verify_otp_expired_raises_TypeError:
  "otp_expires_at (read_OTPRequest otp_444) = Naive 300000000
   \<and> datetime_gt (Aware (clock_at 300000001 0)) (Naive 300000000) = Inl TypeError
   \<and> verify_otp db_S_challenge (clock_at 300000001) ''R1''
        \<lparr>ov_qr_session_id = ''S'', ov_otp = ''444444''\<rparr> student_A = Inl TypeError"
  by (simp add: verify_otp_def datetime_gt_def from_store_def bson_millis_def read_defs
      example_defs store_defs role_defs Let_def)

subsection \<open>C9: the role and class of a registered student\<close>

text \<open>
  Claim C9: every account \<open>add_student\<close> creates has the role student and the class of the
  class teacher who registers it, whatever role and class the request carries: the
  stored document and the result are the same for every submitted role and class.
\<close>

theorem add_student_role_and_class:
  assumes ok: "add_student db now uuid student_data u = Inr (db', user)"
  shows "u_role user = STUDENT \<and> u_class_id user = u_class_id u
       \<and> db' = db\<lparr>users := users db @ [\<lparr>doc_user = user, doc_hashed_password = None\<rparr>]\<rparr>
       \<and> add_student db now uuid (student_data\<lparr>uc_role := r, uc_class_id := c\<rparr>) u
           = Inr (db', user)"
  using ok
  by (auto simp: add_student_def Depends_def require_role_def Let_def insert_one_def
      split: option.splits if_splits)

text \<open>
  Teacher T of class C submits the role superadmin and the class Z: the account has the
  role student and the class C, as it has when the request says student and no class.
\<close>

theorem add_student_role_and_class_witness:
  "add_student empty_db (clock_at 0) ''A'' student_request teacher_T = Inr (db_A, student_A)
   \<and> uc_role student_request = ''superadmin'' \<and> uc_class_id student_request = Some ''Z''
   \<and> u_role student_A = STUDENT \<and> u_class_id student_A = u_class_id teacher_T
   \<and> u_class_id teacher_T = Some ''C''
   \<and> add_student empty_db (clock_at 0) ''A''
        (student_request\<lparr>uc_role := ''student'', uc_class_id := None\<rparr>) teacher_T
       = Inr (db_A, student_A)"
proof -
  note t = add_student_role_and_class[OF add_student_example, where r = "''student''"
      and c = None]
  have a: "uc_role student_request = ''superadmin''" "uc_class_id student_request = Some ''Z''"
    by (simp_all add: student_request_def)
  have b: "u_class_id teacher_T = Some ''C''"
    by (simp add: teacher_T_def)
  show ?thesis using t add_student_example a b by simp
qed

subsection \<open>C10: password login of a registered student\<close>

text \<open>
  Claim C10: the document \<open>add_student\<close> stores has no password hash, and a later
  \<open>login\<close> with the account's email and any password raises \<open>KeyError\<close> on
  \<open>user["hashed_password"]\<close> instead of answering 401. The store only grows, by documents
  appended after this one (\<open>later\<close>), and \<open>find_one\<close> returns the first document with the
  email, which is this one since \<open>add_student\<close> found none before it.
\<close>

theorem login_after_add_student_raises:
  assumes ok: "add_student db now uuid student_data u = Inr (db', user)"
  shows "(\<exists>doc. users db' = users db @ [doc] \<and> doc_user doc = user
                \<and> doc_hashed_password doc = None)
       \<and> login (db'\<lparr>users := users db' @ later\<rparr>) now' sha256 jwt_encode
            \<lparr>ul_email = u_email user, ul_password = password\<rparr>
           = Inl (KeyError ''hashed_password'')
       \<and> login (db'\<lparr>users := users db' @ later\<rparr>) now' sha256 jwt_encode
            \<lparr>ul_email = u_email user, ul_password = password\<rparr>
           \<noteq> Inl (HTTPException 401 ''Incorrect email or password'')"
proof -
  let ?doc = "\<lparr>doc_user = user, doc_hashed_password = None\<rparr>"
  have unused: "find_one (\<lambda>d. u_email (doc_user d) = u_email user) (users db) = None"
    and db': "users db' = users db @ [?doc]"
    using ok
    by (auto simp: add_student_def Depends_def Let_def insert_one_def
        split: sum.splits option.splits)
  have "find_one (\<lambda>d. u_email (doc_user d) = u_email user) (users db' @ later) = Some ?doc"
    by (simp add: db' find_one_append unused)
  then have "login (db'\<lparr>users := users db' @ later\<rparr>) now' sha256 jwt_encode
            \<lparr>ul_email = u_email user, ul_password = password\<rparr>
           = Inl (KeyError ''hashed_password'')"
    by (simp add: login_def)
  then show ?thesis using db' by simp
qed

text \<open>Student A, registered by teacher T, logs in with the password of the request.\<close>

theorem login_after_add_student_raises_witness:
  "add_student empty_db (clock_at 0) ''A'' student_request teacher_T = Inr (db_A, student_A)
   \<and> login db_A (clock_at 60000000) plain_render (\<lambda>sub exp. sub)
        \<lparr>ul_email = ''a@school.com'', ul_password = ''dummy''\<rparr>
       = Inl (KeyError ''hashed_password'')"
  using login_after_add_student_raises[OF add_student_example, where later = "[]"
      and now' = "clock_at 60000000" and ?sha256.0 = plain_render and jwt_encode = "\<lambda>sub exp. sub"
      and password = "''dummy''"]
  by (simp add: add_student_example student_A_def)

end
